theory Spec2Isabelle
  imports Complex_Main "HOL-Library.Sublist" "HOL-Library.Log_Nat"
begin

section \<open>Strings\<close>

text \<open>
  JavaScript strings are modelled as \<^typ>\<open>string\<close>. Every character the two scripts inspect
  (\<open><\<close>, \<open>>\<close>, \<open>-\<close>, \<open>T\<close>, the line feed, the decimal digits) is ASCII, so working on the
  UTF-8 bytes of a text gives the same result as working on its UTF-16 code units.
\<close>

text \<open>\<open>s.replace(/c/g, r)\<close> for a one-character pattern \<open>c\<close>.\<close>

fun replaceAll :: "char \<Rightarrow> string \<Rightarrow> string \<Rightarrow> string" where
  "replaceAll c r [] = []"
| "replaceAll c r (x # xs) = (if x = c then r @ replaceAll c r xs else x # replaceAll c r xs)"

text \<open>
  \<open>s.split(c)\<close> for a one-character separator: the accumulator \<open>cur\<close> holds the segment
  being read. \<open>''''.split(c)\<close> is the one-element array \<open>['''']\<close>.
\<close>

fun splitAcc :: "char \<Rightarrow> string \<Rightarrow> string \<Rightarrow> string list" where
  "splitAcc c cur [] = [rev cur]"
| "splitAcc c cur (x # xs) = (if x = c then rev cur # splitAcc c [] xs else splitAcc c (x # cur) xs)"

definition split :: "char \<Rightarrow> string \<Rightarrow> string list" where
  "split c s = splitAcc c [] s"

text \<open>\<open>xs.join(sep)\<close> on an array of strings.\<close>

fun join :: "string \<Rightarrow> string list \<Rightarrow> string" where
  "join sep [] = []"
| "join sep [x] = x"
| "join sep (x # y # ys) = x @ sep @ join sep (y # ys)"

text \<open>\<open>s.startsWith(''-'')\<close>.\<close>

definition startsWithDash :: "string \<Rightarrow> bool" where
  "startsWithDash s = (case s of [] \<Rightarrow> False | x # _ \<Rightarrow> x = CHR ''-'')"

section \<open>The Markdown escaping\<close>

text \<open>
  \<^verbatim>\<open>
  function escapeMarkdown(text) {
    if (!text) return '';
    return text
      .replace(/</g, '&lt;')
      .replace(/>/g, '&gt;');
  }
  \<close>
  Both call sites pass \<open>x.text || ''''\<close>, a string; the only falsy string is the empty one.
\<close>

definition escapeMarkdown :: "string \<Rightarrow> string" where
  "escapeMarkdown text =
     (if text = [] then []
      else replaceAll (CHR ''>'') ''&gt;'' (replaceAll (CHR ''<'') ''&lt;'' text))"

text \<open>
  The escaping as the specification words it: each character is looked at once, \<open><\<close> and
  \<open>>\<close> become their entities, every other character stays.
\<close>

definition escapeChar_spec :: "char \<Rightarrow> string" where
  "escapeChar_spec c =
     (if c = CHR ''<'' then ''&lt;'' else if c = CHR ''>'' then ''&gt;'' else [c])"

definition escape_spec :: "string \<Rightarrow> string" where
  "escape_spec s = concat (map escapeChar_spec s)"

section \<open>Numbers\<close>

text \<open>
  A Number is not-a-number, an infinity, or a finite binary64 value, which is kept as the
  rational it is equal to (the two zeros are one value here; nothing the scripts do tells
  them apart).
\<close>

datatype jsnum = NaN | PosInf | NegInf | Fin rat

text \<open>
  Rounding a rational to the nearest binary64 value, ties to the even significand:
  \<open>ilog2 a\<close> is the exponent of the power of two at or below \<open>a\<close>, found from the bit
  lengths of numerator and denominator; the unit in the last place is \<open>2\<^sup>e\<^sup>-\<^sup>5\<^sup>2\<close>, with
  \<open>e\<close> not below \<open>-1022\<close> (the subnormal range); a result of \<open>2\<^sup>1\<^sup>0\<^sup>2\<^sup>4\<close> or more is an
  infinity.
\<close>

definition scale2 :: "rat \<Rightarrow> int \<Rightarrow> rat" where
  "scale2 q p = (if 0 \<le> p then q * 2 ^ nat p else q / 2 ^ nat (- p))"

definition roundHalfEven :: "rat \<Rightarrow> int" where
  "roundHalfEven q =
     (let f = \<lfloor>q\<rfloor>; d = q - of_int f
      in if d < 1 / 2 then f
         else if 1 / 2 < d then f + 1
         else if even f then f else f + 1)"

definition ilog2 :: "rat \<Rightarrow> int" where
  "ilog2 a =
     (let e0 = bitlen (fst (quotient_of a)) - bitlen (snd (quotient_of a))
      in if scale2 1 e0 \<le> a then e0 else e0 - 1)"

definition toBinary64 :: "rat \<Rightarrow> jsnum" where
  "toBinary64 q =
     (if q = 0 then Fin 0
      else
        let a = \<bar>q\<bar>;
            e = max (ilog2 a) (- 1022);
            p = e - 52;
            m = roundHalfEven (scale2 a (- p));
            v = scale2 (of_int m) p
        in if 2 ^ 1024 \<le> v then (if 0 < q then PosInf else NegInf)
           else Fin (if q < 0 then - v else v))"

definition isDigit :: "char \<Rightarrow> bool" where
  "isDigit c = (c \<in> set ''0123456789'')"

definition isHexDigit :: "char \<Rightarrow> bool" where
  "isHexDigit c = (c \<in> set ''0123456789abcdefABCDEF'')"

definition hexVal :: "char \<Rightarrow> nat" where
  "hexVal c =
     (if c \<in> set ''0123456789'' then of_char c - 48
      else if c \<in> set ''abcdef'' then of_char c - 87
      else of_char c - 55)"

text \<open>The value of a digit sequence in a radix, most significant digit first.\<close>

definition radixVal :: "nat \<Rightarrow> string \<Rightarrow> nat" where
  "radixVal b ds = foldl (\<lambda>a c. b * a + hexVal c) 0 ds"

definition digitsVal :: "string \<Rightarrow> nat" where
  "digitsVal ds = radixVal 10 ds"

text \<open>
  The white space and line terminators that \<open>Number\<close> strips from both ends of a text, as
  their UTF-8 bytes: tab, line feed, vertical tab, form feed, carriage return, space,
  U+00A0, U+1680, U+2000 to U+200A, U+2028, U+2029, U+202F, U+205F, U+3000 and U+FEFF.
\<close>

definition wsSeqs :: "string list" where
  "wsSeqs =
     [[CHR 0x09], [CHR 0x0A], [CHR 0x0B], [CHR 0x0C], [CHR 0x0D], [CHR 0x20],
      [CHR 0xC2, CHR 0xA0],
      [CHR 0xE1, CHR 0x9A, CHR 0x80],
      [CHR 0xE2, CHR 0x80, CHR 0x80], [CHR 0xE2, CHR 0x80, CHR 0x81],
      [CHR 0xE2, CHR 0x80, CHR 0x82], [CHR 0xE2, CHR 0x80, CHR 0x83],
      [CHR 0xE2, CHR 0x80, CHR 0x84], [CHR 0xE2, CHR 0x80, CHR 0x85],
      [CHR 0xE2, CHR 0x80, CHR 0x86], [CHR 0xE2, CHR 0x80, CHR 0x87],
      [CHR 0xE2, CHR 0x80, CHR 0x88], [CHR 0xE2, CHR 0x80, CHR 0x89],
      [CHR 0xE2, CHR 0x80, CHR 0x8A],
      [CHR 0xE2, CHR 0x80, CHR 0xA8], [CHR 0xE2, CHR 0x80, CHR 0xA9],
      [CHR 0xE2, CHR 0x80, CHR 0xAF],
      [CHR 0xE2, CHR 0x81, CHR 0x9F],
      [CHR 0xE3, CHR 0x80, CHR 0x80],
      [CHR 0xEF, CHR 0xBB, CHR 0xBF]]"

text \<open>Taking the sequences of \<open>seqs\<close> off the front of a text for as long as one is there.\<close>

function stripLeft :: "string list \<Rightarrow> string \<Rightarrow> string" where
  "stripLeft seqs s =
     (case List.find (\<lambda>p. p \<noteq> [] \<and> prefix p s) seqs of
        None \<Rightarrow> s
      | Some p \<Rightarrow> stripLeft seqs (drop (length p) s))"
  by pat_completeness auto
termination
  by (relation "measure (\<lambda>(seqs, s). length s)") (auto simp: find_Some_iff prefix_def)

declare stripLeft.simps [simp del]

definition trimWS :: "string \<Rightarrow> string" where
  "trimWS s = rev (stripLeft (map rev wsSeqs) (rev (stripLeft wsSeqs s)))"

text \<open>
  The optional exponent part that ends a decimal literal: \<open>e\<close> or \<open>E\<close>, an optional sign,
  at least one digit, and nothing after. \<open>None\<close> when the rest of the literal is anything
  else.
\<close>

definition exponentPart :: "string \<Rightarrow> int option" where
  "exponentPart r =
     (case r of
        [] \<Rightarrow> Some 0
      | e # r1 \<Rightarrow>
          if e = CHR ''e'' \<or> e = CHR ''E'' then
            (case r1 of
               [] \<Rightarrow> None
             | sg # r2 \<Rightarrow>
                 if sg = CHR ''+'' then
                   (if r2 \<noteq> [] \<and> list_all isDigit r2 then Some (int (digitsVal r2)) else None)
                 else if sg = CHR ''-'' then
                   (if r2 \<noteq> [] \<and> list_all isDigit r2 then Some (- int (digitsVal r2)) else None)
                 else if list_all isDigit r1 then Some (int (digitsVal r1))
                 else None)
          else None)"

definition scale10 :: "rat \<Rightarrow> int \<Rightarrow> rat" where
  "scale10 q e = (if 0 \<le> e then q * 10 ^ nat e else q / 10 ^ nat (- e))"

text \<open>
  An unsigned decimal literal: \<open>Infinity\<close>, or digits with an optional fraction and an
  optional exponent, where the integer part or the fraction has a digit; its value is
  rounded to binary64.
\<close>

definition unsignedDecimal :: "string \<Rightarrow> jsnum" where
  "unsignedDecimal s =
     (if s = ''Infinity'' then PosInf
      else
        let ip = takeWhile isDigit s;
            r1 = dropWhile isDigit s;
            hasDot = (case r1 of [] \<Rightarrow> False | c # _ \<Rightarrow> c = CHR ''.'');
            fp = (if hasDot then takeWhile isDigit (tl r1) else []);
            r2 = (if hasDot then dropWhile isDigit (tl r1) else r1)
        in if ip = [] \<and> fp = [] then NaN
           else
             (case exponentPart r2 of
                None \<Rightarrow> NaN
              | Some e \<Rightarrow>
                  toBinary64
                    (scale10 (of_nat (digitsVal ip) + of_nat (digitsVal fp) / 10 ^ length fp) e)))"

definition negate :: "jsnum \<Rightarrow> jsnum" where
  "negate n = (case n of NaN \<Rightarrow> NaN | PosInf \<Rightarrow> NegInf | NegInf \<Rightarrow> PosInf | Fin q \<Rightarrow> Fin (- q))"

text \<open>A hexadecimal, octal or binary integer literal (\<open>0x\<close>, \<open>0o\<close>, \<open>0b\<close>); these take no sign.\<close>

definition nonDecimal :: "string \<Rightarrow> jsnum option" where
  "nonDecimal s =
     (case s of
        z # p # ds \<Rightarrow>
          if z = CHR ''0'' \<and> (p = CHR ''x'' \<or> p = CHR ''X'') then
            Some (if ds \<noteq> [] \<and> list_all isHexDigit ds
                  then toBinary64 (of_nat (radixVal 16 ds)) else NaN)
          else if z = CHR ''0'' \<and> (p = CHR ''o'' \<or> p = CHR ''O'') then
            Some (if ds \<noteq> [] \<and> list_all (\<lambda>c. c \<in> set ''01234567'') ds
                  then toBinary64 (of_nat (radixVal 8 ds)) else NaN)
          else if z = CHR ''0'' \<and> (p = CHR ''b'' \<or> p = CHR ''B'') then
            Some (if ds \<noteq> [] \<and> list_all (\<lambda>c. c \<in> set ''01'') ds
                  then toBinary64 (of_nat (radixVal 2 ds)) else NaN)
          else None
      | _ \<Rightarrow> None)"

text \<open>
  \<open>Number(s)\<close> for a string \<open>s\<close> (the conversion \<open>.map(Number)\<close> applies to every segment):
  surrounding white space is dropped, the empty text is \<open>0\<close>, and a text that is not a
  numeric literal is \<open>NaN\<close>.
\<close>

definition Number :: "string \<Rightarrow> jsnum" where
  "Number s =
     (let t = trimWS s in
      if t = [] then Fin 0
      else
        (case nonDecimal t of
           Some n \<Rightarrow> n
         | None \<Rightarrow>
             (case t of
                [] \<Rightarrow> Fin 0
              | c # r \<Rightarrow>
                  if c = CHR ''+'' then unsignedDecimal r
                  else if c = CHR ''-'' then negate (unsignedDecimal r)
                  else unsignedDecimal t)))"

text \<open>\<open>n - 1\<close> on a number: the difference, rounded.\<close>

definition minusOne :: "jsnum \<Rightarrow> jsnum" where
  "minusOne n = (case n of Fin q \<Rightarrow> toBinary64 (q - 1) | other \<Rightarrow> other)"

text \<open>The integer part of a finite number (rounding towards zero).\<close>

definition toInteger :: "rat \<Rightarrow> int" where
  "toInteger q = (if 0 \<le> q then \<lfloor>q\<rfloor> else \<lceil>q\<rceil>)"

section \<open>Dates\<close>

text \<open>
  A \<open>Date\<close> object holds a time value: a whole number of milliseconds since the epoch, or
  not-a-number (\<open>Invalid Date\<close>). Relational operators on two dates compare the time
  values as numbers, so every comparison with an invalid date is false.
\<close>

datatype jsdate = InvalidDate | Date int

definition date_lt :: "jsdate \<Rightarrow> jsdate \<Rightarrow> bool" where
  "date_lt a b = (case (a, b) of (Date x, Date y) \<Rightarrow> x < y | _ \<Rightarrow> False)"

definition date_gt :: "jsdate \<Rightarrow> jsdate \<Rightarrow> bool" where
  "date_gt a b = (case (a, b) of (Date x, Date y) \<Rightarrow> x > y | _ \<Rightarrow> False)"

definition date_le :: "jsdate \<Rightarrow> jsdate \<Rightarrow> bool" where
  "date_le a b = (case (a, b) of (Date x, Date y) \<Rightarrow> x \<le> y | _ \<Rightarrow> False)"

definition date_ge :: "jsdate \<Rightarrow> jsdate \<Rightarrow> bool" where
  "date_ge a b = (case (a, b) of (Date x, Date y) \<Rightarrow> x \<ge> y | _ \<Rightarrow> False)"

text \<open>The date arithmetic of the language standard, on whole numbers.\<close>

definition msPerDay :: int where
  "msPerDay = 86400000"

definition Day :: "int \<Rightarrow> int" where
  "Day t = t div msPerDay"

definition DayFromYear :: "int \<Rightarrow> int" where
  "DayFromYear y =
     365 * (y - 1970) + (y - 1969) div 4 - (y - 1901) div 100 + (y - 1601) div 400"

definition isLeapYear :: "int \<Rightarrow> bool" where
  "isLeapYear y = (y mod 4 = 0 \<and> (y mod 100 \<noteq> 0 \<or> y mod 400 = 0))"

text \<open>Days of the year before the first of month \<open>m\<close> (\<open>0\<close> is January).\<close>

definition daysBeforeMonth :: "int \<Rightarrow> nat \<Rightarrow> int" where
  "daysBeforeMonth y m =
     [0, 31, 59, 90, 120, 151, 181, 212, 243, 273, 304, 334] ! m
       + (if isLeapYear y \<and> 2 \<le> m then 1 else 0)"

definition MakeDay :: "int \<Rightarrow> int \<Rightarrow> int \<Rightarrow> int" where
  "MakeDay year month dt =
     (let ym = year + month div 12; mn = month mod 12
      in DayFromYear ym + daysBeforeMonth ym (nat mn) + dt - 1)"

definition MakeTime :: "int \<Rightarrow> int \<Rightarrow> int \<Rightarrow> int \<Rightarrow> int" where
  "MakeTime h m s ms = h * 3600000 + m * 60000 + s * 1000 + ms"

definition MakeDate :: "int \<Rightarrow> int \<Rightarrow> int" where
  "MakeDate day time = day * msPerDay + time"

definition TimeClip :: "int \<Rightarrow> jsdate" where
  "TimeClip t = (if \<bar>t\<bar> > 8640000000000000 then InvalidDate else Date t)"

text \<open>
  Local time. The local zone is a parameter of the model, given by the two offsets (in
  milliseconds) the engine takes from its zone rules: \<open>utcOffset z t\<close> is the offset in
  force at the instant \<open>t\<close>, and \<open>localOffset z t\<close> is the offset by which the engine reads
  the local time value \<open>t\<close> (for a local time that a clock change skips or repeats, the
  offset in force before the change). With daylight saving both depend on \<open>t\<close>.
\<close>

record zone =
  utcOffset :: "int \<Rightarrow> int"
  localOffset :: "int \<Rightarrow> int"

definition LocalTime :: "zone \<Rightarrow> int \<Rightarrow> int" where
  "LocalTime z t = t + utcOffset z t"

definition UTC :: "zone \<Rightarrow> int \<Rightarrow> int" where
  "UTC z t = t - localOffset z t"

text \<open>
  \<open>new Date(year, month, day)\<close> with three arguments: each must be finite, a year from 0 to
  99 stands for 1900 to 1999, a month or day out of range carries over, and the result is
  local midnight of that day.
\<close>

definition newDate :: "zone \<Rightarrow> jsnum \<Rightarrow> jsnum \<Rightarrow> jsnum \<Rightarrow> jsdate" where
  "newDate z year month day =
     (case (year, month, day) of
        (Fin y, Fin m, Fin dt) \<Rightarrow>
          (let yi = toInteger y;
               yr = (if 0 \<le> yi \<and> yi \<le> 99 then 1900 + yi else yi)
           in TimeClip (UTC z (MakeDate (MakeDay yr (toInteger m) (toInteger dt)) (MakeTime 0 0 0 0))))
      | _ \<Rightarrow> InvalidDate)"

text \<open>\<open>d.setHours(h, m, s, ms)\<close>: the same local day, at the given time of day.\<close>

definition setHours :: "zone \<Rightarrow> jsdate \<Rightarrow> int \<Rightarrow> int \<Rightarrow> int \<Rightarrow> int \<Rightarrow> jsdate" where
  "setHours z d h m s ms =
     (case d of
        InvalidDate \<Rightarrow> InvalidDate
      | Date t \<Rightarrow> TimeClip (UTC z (MakeDate (Day (LocalTime z t)) (MakeTime h m s ms))))"

text \<open>
  \<^verbatim>\<open>
  function parseUserDate(dateStr) {
    // User format: YYYY-MM-DD
    const [year, month, day] = dateStr.split('-').map(Number);
    return new Date(year, month - 1, day);
  }
  \<close>
  A segment that is missing is \<open>undefined\<close>, which is \<open>NaN\<close> as a number (also after
  \<open>- 1\<close>); segments after the third are dropped. Nothing here raises.
\<close>

definition element :: "jsnum list \<Rightarrow> nat \<Rightarrow> jsnum" where
  "element xs i = (if i < length xs then xs ! i else NaN)"

definition parseUserDate :: "zone \<Rightarrow> string \<Rightarrow> jsdate" where
  "parseUserDate z dateStr =
     (let parts = map Number (split (CHR ''-'') dateStr);
          year = element parts 0;
          month = element parts 1;
          day = element parts 2
      in newDate z year (minusOne month) day)"

section \<open>Bookmark records\<close>

text \<open>
  The records of the export, with the fields the scripts read and the types the export
  gives them. A field that is absent (\<open>undefined\<close> when read) is \<open>None\<close>; for the texts, the
  author and the counts a \<open>null\<close> is read the same way (\<open>||\<close>, \<open>?.\<close> and \<open>??\<close> do not tell
  them apart). An identifier is a string or a whole number, the counts are whole numbers:
  the values \<open>JSON.parse\<close> gave. Of a quoted tweet only the author and the text are read. An array element that is no object, or a field of another type (a number
  as \<open>text\<close>, \<open>null\<close> as \<open>createdAt\<close>), is outside the model.
\<close>

datatype ident = IdStr string | IdNum int

record author =
  name :: "string option"
  username :: "string option"

record quoted =
  quotedAuthor :: "author option"
  quotedText :: "string option"

record tweet =
  id_field :: "ident option"
  createdAt :: "string option"
  text_field :: "string option"
  author :: "author option"
  likeCount :: "int option"
  retweetCount :: "int option"
  replyCount :: "int option"
  quotedTweet :: "quoted option"

section \<open>The runtime\<close>

text \<open>
  What the scripts take from the JavaScript runtime and the file system, as parameters of
  the model: \<open>Date.parse\<close> on a timestamp text (its result for the export's format is left
  to the engine), the \<open>en-US\<close> rendering of a date with the options of \<open>formatDate\<close>, the
  local time zone, the text of a whole number of magnitude \<open>2\<^sup>5\<^sup>3\<close> or more (the shortest
  digits that read back as the same binary64 value), the current instant as
  \<open>toISOString\<close> prints it, and the file and JSON operations. An operation that throws
  returns the message of the error.
\<close>

datatype json = NotArray | Array "tweet list"

record runtime =
  dateParse :: "string \<Rightarrow> jsdate"
  toLocaleDateString :: "jsdate \<Rightarrow> string"
  timeZone :: zone
  numberToString :: "int \<Rightarrow> string"
  nowISO :: string
  existsSync :: "string \<Rightarrow> bool"
  readFileSync :: "string \<Rightarrow> string + string"
  jsonParse :: "string \<Rightarrow> string + json"
  jsonStringify :: "tweet list \<Rightarrow> string"
  writeFileSync :: "string \<Rightarrow> string \<Rightarrow> string option"

section \<open>The range filter\<close>

text \<open>
  \<^verbatim>\<open>
  function parseTwitterDate(dateStr) {
    // Twitter format: "Tue Jan 20 16:01:16 +0000 2026"
    return new Date(dateStr);
  }
  \<close>
  \<open>new Date(undefined)\<close> is an invalid date.
\<close>

definition parseTwitterDate :: "(string \<Rightarrow> jsdate) \<Rightarrow> string option \<Rightarrow> jsdate" where
  "parseTwitterDate parse dateStr = (case dateStr of None \<Rightarrow> InvalidDate | Some s \<Rightarrow> parse s)"

text \<open>
  The arrow function both filters pass to \<open>Array.prototype.filter\<close>. A bound is \<open>null\<close>
  (\<open>None\<close>) or a \<open>Date\<close> object, which is truthy also when it is invalid.
  \<^verbatim>\<open>
  bookmark => {
    const createdAt = parseTwitterDate(bookmark.createdAt);
    if (fromDate && createdAt < fromDate) return false;
    if (toDate && createdAt > toDate) return false;
    return true;
  }
  \<close>
\<close>

definition keepBookmark ::
  "(string \<Rightarrow> jsdate) \<Rightarrow> jsdate option \<Rightarrow> jsdate option \<Rightarrow> tweet \<Rightarrow> bool" where
  "keepBookmark parse fromDate toDate bookmark =
     (let created = parseTwitterDate parse (createdAt bookmark) in
      if (case fromDate of None \<Rightarrow> False | Some f \<Rightarrow> date_lt created f) then False
      else if (case toDate of None \<Rightarrow> False | Some t \<Rightarrow> date_gt created t) then False
      else True)"

text \<open>
  \<open>filterByDate\<close> of the converter (it returns the array it was given when no bound is set):
  \<^verbatim>\<open>
  function filterByDate(bookmarks, fromDate, toDate) {
    if (!fromDate && !toDate) return bookmarks;
    return bookmarks.filter(bookmark => { ... });
  }
  \<close>
\<close>

definition filterByDate ::
  "(string \<Rightarrow> jsdate) \<Rightarrow> tweet list \<Rightarrow> jsdate option \<Rightarrow> jsdate option \<Rightarrow> tweet list" where
  "filterByDate parse bookmarks fromDate toDate =
     (if fromDate = None \<and> toDate = None then bookmarks
      else filter (keepBookmark parse fromDate toDate) bookmarks)"

text \<open>
  \<open>filterByDate\<close> of the filter tool (\<open>filter-bookmarks.js\<close>), which has no early return:
  \<^verbatim>\<open>
  function filterByDate(bookmarks, fromDate, toDate) {
      return bookmarks.filter(bookmark => { ... });
  }
  \<close>
\<close>

definition filterByDate_tool ::
  "(string \<Rightarrow> jsdate) \<Rightarrow> tweet list \<Rightarrow> jsdate option \<Rightarrow> jsdate option \<Rightarrow> tweet list" where
  "filterByDate_tool parse bookmarks fromDate toDate =
     filter (keepBookmark parse fromDate toDate) bookmarks"

subsection \<open>Arrays as objects in a store\<close>

text \<open>
  An array is an object: a variable holds a reference to it. The store maps references to
  the arrays' contents; \<open>nextRef\<close> is the first reference not yet in use.
  \<open>Array.prototype.filter\<close> reads its receiver and puts the result in a new array. The
  converter's early return hands back the reference it was given.
\<close>

record store =
  cells :: "nat \<Rightarrow> tweet list"
  nextRef :: nat

definition alloc :: "store \<Rightarrow> tweet list \<Rightarrow> store \<times> nat" where
  "alloc st xs = (st\<lparr>cells := (cells st)(nextRef st := xs), nextRef := Suc (nextRef st)\<rparr>, nextRef st)"

definition filterByDate_ref ::
  "(string \<Rightarrow> jsdate) \<Rightarrow> store \<Rightarrow> nat \<Rightarrow> jsdate option \<Rightarrow> jsdate option \<Rightarrow> store \<times> nat" where
  "filterByDate_ref parse st bookmarks fromDate toDate =
     (if fromDate = None \<and> toDate = None then (st, bookmarks)
      else alloc st (filter (keepBookmark parse fromDate toDate) (cells st bookmarks)))"

definition filterByDate_tool_ref ::
  "(string \<Rightarrow> jsdate) \<Rightarrow> store \<Rightarrow> nat \<Rightarrow> jsdate option \<Rightarrow> jsdate option \<Rightarrow> store \<times> nat" where
  "filterByDate_tool_ref parse st bookmarks fromDate toDate =
     alloc st (filter (keepBookmark parse fromDate toDate) (cells st bookmarks))"

section \<open>The command line\<close>

text \<open>
  The options object of \<open>parseArgs\<close>; \<open>None\<close> is \<open>null\<close>. (The fields are \<open>input\<close>, \<open>output\<close>,
  \<open>from\<close> and \<open>to\<close> in the scripts.)
\<close>

record options =
  input_opt :: "string option"
  output_opt :: "string option"
  from_opt :: "jsdate option"
  to_opt :: "jsdate option"

text \<open>\<open>!result.input\<close>: the input is still \<open>null\<close>, or it is the empty string.\<close>

definition noInput :: "options \<Rightarrow> bool" where
  "noInput result = (case input_opt result of None \<Rightarrow> True | Some s \<Rightarrow> s = [])"

text \<open>
  \<^verbatim>\<open>
  for (let i = 0; i < args.length; i++) {
    const arg = args[i];
    if (arg === '--from' && args[i + 1]) {
      result.from = parseUserDate(args[++i]);
    } else if (arg === '--to' && args[i + 1]) {
      result.to = parseUserDate(args[++i]);
      result.to.setHours(23, 59, 59, 999);
    } else if ((arg === '-o' || arg === '--output') && args[i + 1]) {
      result.output = args[++i];
    } else if (!arg.startsWith('-') && !result.input) {
      result.input = arg;
    }
  }
  \<close>
  The list is \<open>args\<close> from index \<open>i\<close> on. \<open>args[i + 1]\<close> is falsy when there is no next
  token and when the next token is the empty string; \<open>args[++i]\<close> takes the next token
  with it. The loop is the same in both scripts.
\<close>

fun parseArgs_loop :: "zone \<Rightarrow> string list \<Rightarrow> options \<Rightarrow> options" where
  "parseArgs_loop z [] result = result"
| "parseArgs_loop z [arg] result =
     (if \<not> startsWithDash arg \<and> noInput result then result\<lparr>input_opt := Some arg\<rparr>
      else result)"
| "parseArgs_loop z (arg # nxt # rest) result =
     (if arg = ''--from'' \<and> nxt \<noteq> [] then
        parseArgs_loop z rest (result\<lparr>from_opt := Some (parseUserDate z nxt)\<rparr>)
      else if arg = ''--to'' \<and> nxt \<noteq> [] then
        parseArgs_loop z rest
          (result\<lparr>to_opt := Some (setHours z (parseUserDate z nxt) 23 59 59 999)\<rparr>)
      else if (arg = ''-o'' \<or> arg = ''--output'') \<and> nxt \<noteq> [] then
        parseArgs_loop z rest (result\<lparr>output_opt := Some nxt\<rparr>)
      else if \<not> startsWithDash arg \<and> noInput result then
        parseArgs_loop z (nxt # rest) (result\<lparr>input_opt := Some arg\<rparr>)
      else parseArgs_loop z (nxt # rest) result)"

definition parseArgs :: "zone \<Rightarrow> string list \<Rightarrow> options" where
  "parseArgs z args =
     parseArgs_loop z args \<lparr>input_opt = None, output_opt = None, from_opt = None, to_opt = None\<rparr>"

section \<open>The Markdown renderer\<close>

text \<open>
  A whole number in a template literal. An array length, and a count or identifier of
  magnitude below \<open>2\<^sup>5\<^sup>3\<close>, prints as its decimal digits, with a sign when negative; for a
  larger one the text is the runtime's.
\<close>

fun showNat :: "nat \<Rightarrow> string" where
  "showNat n =
     (if n < 10 then [''0123456789'' ! n]
      else showNat (n div 10) @ [''0123456789'' ! (n mod 10)])"

declare showNat.simps [simp del]

definition showInt :: "runtime \<Rightarrow> int \<Rightarrow> string" where
  "showInt rt i =
     (if 2 ^ 53 \<le> \<bar>i\<bar> then numberToString rt i
      else if i < 0 then CHR ''-'' # showNat (nat (- i))
      else showNat (nat i))"

text \<open>\<open>${tweet.id}\<close>: an absent identifier prints as \<open>undefined\<close>.\<close>

definition showId :: "runtime \<Rightarrow> ident option \<Rightarrow> string" where
  "showId rt i =
     (case i of
        None \<Rightarrow> ''undefined''
      | Some (IdStr s) \<Rightarrow> s
      | Some (IdNum n) \<Rightarrow> showInt rt n)"

text \<open>\<open>x || d\<close> for a text \<open>x\<close> that may be absent: the default also replaces the empty text.\<close>

definition orElse :: "string option \<Rightarrow> string \<Rightarrow> string" where
  "orElse x d = (case x of None \<Rightarrow> d | Some s \<Rightarrow> if s = [] then d else s)"

text \<open>\<open>x ?? 0\<close> for a count that may be absent.\<close>

definition orZero :: "int option \<Rightarrow> int" where
  "orZero x = (case x of None \<Rightarrow> 0 | Some n \<Rightarrow> n)"

text \<open>\<open>a?.name\<close> and \<open>a?.username\<close> for an author that may be absent.\<close>

definition nameOf :: "author option \<Rightarrow> string option" where
  "nameOf a = (case a of None \<Rightarrow> None | Some au \<Rightarrow> name au)"

definition usernameOf :: "author option \<Rightarrow> string option" where
  "usernameOf a = (case a of None \<Rightarrow> None | Some au \<Rightarrow> username au)"

definition newline :: string where
  "newline = [CHR 0x0A]"

text \<open>
  \<^verbatim>\<open>
  function formatDate(dateStr) {
    if (!dateStr) return 'Unknown date';
    const date = new Date(dateStr);
    return date.toLocaleDateString('en-US', { year: 'numeric', month: 'long',
      day: 'numeric', hour: '2-digit', minute: '2-digit' });
  }
  \<close>
\<close>

definition formatDate :: "runtime \<Rightarrow> string option \<Rightarrow> string" where
  "formatDate rt dateStr =
     (case dateStr of
        None \<Rightarrow> ''Unknown date''
      | Some s \<Rightarrow> if s = [] then ''Unknown date'' else toLocaleDateString rt (dateParse rt s))"

text \<open>The lines the loop of \<open>convertToMarkdown\<close> pushes for the quoted tweet, if there is one.\<close>

definition quotedLines :: "quoted option \<Rightarrow> string list" where
  "quotedLines q =
     (case q of
        None \<Rightarrow> []
      | Some qt \<Rightarrow>
          (let qtAuthor = orElse (nameOf (quotedAuthor qt)) ''Unknown'';
               qtUsername = orElse (usernameOf (quotedAuthor qt)) ''unknown'';
               qtText = escapeMarkdown (orElse (quotedText qt) [])
           in [[],
               ''> **Quoted: '' @ qtAuthor @ '' (@'' @ qtUsername @ '')**'',
               ''> '' @ join (newline @ ''> '') (split (CHR 0x0A) qtText)]))"

text \<open>
  The lines one pass of the loop pushes:
  \<^verbatim>\<open>
  const authorName = tweet.author?.name || 'Unknown';
  const username = tweet.author?.username || 'unknown';
  const text = escapeMarkdown(tweet.text || '');
  const createdAt = formatDate(tweet.createdAt);
  const likes = tweet.likeCount ?? 0;
  const retweets = tweet.retweetCount ?? 0;
  const replies = tweet.replyCount ?? 0;
  const tweetUrl = `https://x.com/${username}/status/${tweet.id}`;
  lines.push(`## ${authorName} (@${username})`);
  lines.push(`**Date:** ${createdAt}`);
  lines.push('');
  lines.push(text);
  lines.push('');
  lines.push(`- Likes: ${likes} | Retweets: ${retweets} | Replies: ${replies}`);
  lines.push(`- [View tweet](${tweetUrl})`);
  if (tweet.quotedTweet) { ... }
  lines.push('');
  lines.push('---');
  lines.push('');
  \<close>
\<close>

definition tweetLines :: "runtime \<Rightarrow> tweet \<Rightarrow> string list" where
  "tweetLines rt tw =
     (let authorName = orElse (nameOf (author tw)) ''Unknown'';
          uname = orElse (usernameOf (author tw)) ''unknown'';
          body = escapeMarkdown (orElse (text_field tw) []);
          created = formatDate rt (createdAt tw);
          likes = orZero (likeCount tw);
          retweets = orZero (retweetCount tw);
          replies = orZero (replyCount tw);
          tweetUrl = ''https://x.com/'' @ uname @ ''/status/'' @ showId rt (id_field tw)
      in [''## '' @ authorName @ '' (@'' @ uname @ '')'',
          ''**Date:** '' @ created,
          [],
          body,
          [],
          ''- Likes: '' @ showInt rt likes @ '' | Retweets: '' @ showInt rt retweets
            @ '' | Replies: '' @ showInt rt replies,
          ''- [View tweet]('' @ tweetUrl @ '')'']
         @ quotedLines (quotedTweet tw)
         @ [[], ''---'', []])"

text \<open>\<open>new Date().toISOString().split('T')[0]\<close>, the current date.\<close>

definition today :: "runtime \<Rightarrow> string" where
  "today rt = (case split (CHR ''T'') (nowISO rt) of [] \<Rightarrow> ''undefined'' | d # _ \<Rightarrow> d)"

definition convertToMarkdown :: "runtime \<Rightarrow> tweet list \<Rightarrow> string" where
  "convertToMarkdown rt bookmarks =
     join newline
       ([''# X Bookmarks'',
         [],
         ''Exported on: '' @ today rt,
         ''Total bookmarks: '' @ showNat (length bookmarks),
         [],
         ''---'',
         []]
        @ concat (map (tweetLines rt) bookmarks))"

section \<open>The two programs\<close>

text \<open>
  A run is the list of what the process did, in order, and its exit status: a text on
  standard output or on the error stream, a test for a file, the reading of a file, the
  writing of a file.
\<close>

datatype event =
    Stdout string
  | Stderr string
  | FsExists string
  | FsRead string
  | FsWrite string string


definition helpFilter :: string where
  "helpFilter = join newline
     [''Filter X/Twitter bookmarks by date range'',
      [],
      ''Usage: node filter-bookmarks.js <input.json> [options]'',
      [],
      ''Options:'',
      ''  --from YYYY-MM-DD   Include bookmarks from this date (inclusive)'',
      ''  --to YYYY-MM-DD     Include bookmarks up to this date (inclusive)'',
      ''  -o, --output FILE   Output to file (default: stdout)'',
      ''  -h, --help          Show this help'',
      [],
      ''Examples:'',
      ''  node filter-bookmarks.js bookmarks.json --from 2026-01-15'',
      ''  node filter-bookmarks.js bookmarks.json --from 2026-01-15 --to 2026-01-22'',
      ''  node filter-bookmarks.js bookmarks.json --to 2026-01-20 -o filtered.json'']"


definition arrowFilter :: string where
  "arrowFilter = [CHR 0xE2, CHR 0x86, CHR 0x92]"

text \<open>The \<open>catch\<close> block of both programs, after the events \<open>evs\<close>.\<close>

definition caught :: "event list \<Rightarrow> string \<Rightarrow> event list \<times> nat" where
  "caught evs message = (evs @ [Stderr (''Error processing bookmarks: '' @ message)], 1)"

definition notAnArray :: "event list \<Rightarrow> event list \<times> nat" where
  "notAnArray evs = (evs @ [Stderr ''Error: JSON file should contain an array of bookmarks''], 1)"


text \<open>
  \<open>main\<close> of the filter tool (\<open>filter-bookmarks.js\<close>): help also when there is no argument
  at all, then the three tests (an input, the file, a bound), then the \<open>try\<close> block.
\<close>

definition main_tool :: "runtime \<Rightarrow> string list \<Rightarrow> event list \<times> nat" where
  "main_tool rt args =
     (if args = [] \<or> ''--help'' \<in> set args \<or> ''-h'' \<in> set args then ([Stdout helpFilter], 0)
      else
        let options = parseArgs (timeZone rt) args in
        if noInput options then ([Stderr ''Error: Input file required''], 1)
        else
          let inputFile = orElse (input_opt options) [] in
          if \<not> existsSync rt inputFile then
            ([FsExists inputFile,
              Stderr (''Error: Input file \"'' @ inputFile @ ''\" not found'')], 1)
          else if from_opt options = None \<and> to_opt options = None then
            ([FsExists inputFile,
              Stderr ''Error: At least one of --from or --to is required''], 1)
          else
            (case readFileSync rt inputFile of
               Inl message \<Rightarrow> caught [FsExists inputFile, FsRead inputFile] message
             | Inr jsonContent \<Rightarrow>
                 (case jsonParse rt jsonContent of
                    Inl message \<Rightarrow> caught [FsExists inputFile, FsRead inputFile] message
                  | Inr NotArray \<Rightarrow> notAnArray [FsExists inputFile, FsRead inputFile]
                  | Inr (Array bookmarks) \<Rightarrow>
                      (let filtered = filterByDate_tool (dateParse rt) bookmarks
                                         (from_opt options) (to_opt options);
                           output = jsonStringify rt filtered;
                           counts = ''Filtered '' @ showNat (length bookmarks) @ '' ''
                                      @ arrowFilter @ '' '' @ showNat (length filtered)
                                      @ '' bookmarks''
                       in case output_opt options of
                            Some outputFile \<Rightarrow>
                              (case writeFileSync rt outputFile output of
                                 Some message \<Rightarrow>
                                   caught [FsExists inputFile, FsRead inputFile,
                                           FsWrite outputFile output] message
                               | None \<Rightarrow>
                                   ([FsExists inputFile, FsRead inputFile,
                                     FsWrite outputFile output,
                                     Stderr counts,
                                     Stderr (''Output written to '' @ outputFile)], 0))
                          | None \<Rightarrow>
                              ([FsExists inputFile, FsRead inputFile,
                                Stdout output,
                                Stderr (newline @ counts)], 0)))))"

section \<open>Notions of the specification\<close>

text \<open>
  The inclusive bound predicate as the specification words it: \<open>from == null\<close> or
  \<open>timestamp >= from\<close>, and \<open>to == null\<close> or \<open>timestamp <= to\<close>.
\<close>

definition inBounds_spec :: "jsdate option \<Rightarrow> jsdate option \<Rightarrow> jsdate \<Rightarrow> bool" where
  "inBounds_spec fromDate toDate ts =
     ((case fromDate of None \<Rightarrow> True | Some f \<Rightarrow> date_ge ts f)
      \<and> (case toDate of None \<Rightarrow> True | Some t \<Rightarrow> date_le ts t))"

text \<open>
  The number of the calendar day \<open>y\<close>-\<open>m\<close>-\<open>d\<close> (month \<open>1\<close> is January), counted from
  1 January 1970, and the instant the engine gives for the local time 23:59:59.999 of a
  day in the zone \<open>z\<close>.
\<close>

definition civilDay :: "int \<Rightarrow> nat \<Rightarrow> int \<Rightarrow> int" where
  "civilDay y m d = DayFromYear y + daysBeforeMonth y (m - 1) + d - 1"




text \<open>A zone at one offset all the time, and UTC.\<close>

definition fixedZone :: "int \<Rightarrow> zone" where
  "fixedZone off = \<lparr>utcOffset = (\<lambda>t. off), localOffset = (\<lambda>t. off)\<rparr>"

definition utcZone :: zone where
  "utcZone = fixedZone 0"

definition daysInMonth :: "int \<Rightarrow> nat \<Rightarrow> int" where
  "daysInMonth y m =
     (if m = 2 then (if isLeapYear y then 29 else 28)
      else if m \<in> {4, 6, 9, 11} then 30 else 31)"



text \<open>
  The four flags that take a value, and the two ways a token read as \<open>arg\<close> changes the
  options when the options are \<open>result\<close> and the tokens after it are \<open>rest\<close>: as a flag with
  a value after it, or as the input path.
\<close>

definition isFlag :: "string \<Rightarrow> bool" where
  "isFlag a = (a = ''--from'' \<or> a = ''--to'' \<or> a = ''-o'' \<or> a = ''--output'')"

definition recognised :: "options \<Rightarrow> string \<Rightarrow> string list \<Rightarrow> bool" where
  "recognised result arg rest =
     ((isFlag arg \<and> (case rest of [] \<Rightarrow> False | nxt # _ \<Rightarrow> nxt \<noteq> []))
      \<or> (\<not> startsWithDash arg \<and> noInput result))"

text \<open>
  \<open>atScan pre\<close>: after the tokens \<open>pre\<close> the loop reads the next token as \<open>arg\<close>; that token
  is not taken as the value of a flag that ends \<open>pre\<close>.
\<close>

fun atScan :: "string list \<Rightarrow> bool" where
  "atScan [] = True"
| "atScan [a] = (\<not> isFlag a)"
| "atScan (a # b # rest) = (if isFlag a \<and> b \<noteq> [] then atScan rest else atScan (b # rest))"

section \<open>Data for the examples\<close>

text \<open>
  \<open>Date.parse\<close> on the timestamps of the examples, with the values Node.js gives; the other
  texts of the examples are no dates. \<open>testLocale\<close> is the \<open>en-US\<close> rendering of the one
  date an example prints.
\<close>

definition testParse :: "string \<Rightarrow> jsdate" where
  "testParse s =
     (if s = ''Sat Jan 10 09:30:00 +0000 2026'' then Date 1768037400000
      else if s = ''Tue Jan 20 16:01:16 +0000 2026'' then Date 1768924876000
      else if s = ''Tue Jan 20 23:59:59 +0000 2026'' then Date 1768953599000
      else if s = ''Wed Jan 21 00:00:00 +0000 2026'' then Date 1768953600000
      else if s = ''Mon Jan 01 00:00:00 +0000 1900'' then Date (- 2208988800000)
      else if s = ''Mon Mar 09 03:30:00 +0000 2026'' then Date 1773027000000
      else if s = ''Mon Mar 09 04:30:00 +0000 2026'' then Date 1773030600000
      else InvalidDate)"

definition noFields :: tweet where
  "noFields = \<lparr>id_field = None, createdAt = None, text_field = None, author = None,
     likeCount = None, retweetCount = None, replyCount = None, quotedTweet = None\<rparr>"

definition tweetAt :: "string \<Rightarrow> string \<Rightarrow> tweet" where
  "tweetAt i stamp = noFields\<lparr>id_field := Some (IdStr i), createdAt := Some stamp\<rparr>"

definition jan10 :: tweet where
  "jan10 = tweetAt ''1'' ''Sat Jan 10 09:30:00 +0000 2026''"

definition jan20 :: tweet where
  "jan20 = tweetAt ''2'' ''Tue Jan 20 16:01:16 +0000 2026''"

definition jan20late :: tweet where
  "jan20late = tweetAt ''3'' ''Tue Jan 20 23:59:59 +0000 2026''"

definition jan21 :: tweet where
  "jan21 = tweetAt ''4'' ''Wed Jan 21 00:00:00 +0000 2026''"

definition year1900 :: tweet where
  "year1900 = tweetAt ''5'' ''Mon Jan 01 00:00:00 +0000 1900''"

definition undated :: tweet where
  "undated = tweetAt ''6'' ''not a date''"




text \<open>A store with one array, at reference \<open>0\<close>.\<close>

definition testStore :: store where
  "testStore = \<lparr>cells = (\<lambda>r. if r = 0 then [jan10, undated, jan20] else []), nextRef = 1\<rparr>"

text \<open>
  A runtime for the examples: the local zone is UTC, and the one file there is,
  \<open>bookmarks.json\<close>, holds the empty array (which \<open>JSON.stringify\<close> prints as \<open>[]\<close>). The
  text of a large number is right for \<open>2\<^sup>5\<^sup>3\<close> and its negative; no example prints another.
\<close>

definition testLocale :: "jsdate \<Rightarrow> string" where
  "testLocale d =
     (if d = Date 1768924876000 then ''January 20, 2026 at 04:01 PM'' else ''Invalid Date'')"

definition testRuntime :: runtime where
  "testRuntime =
     \<lparr>dateParse = testParse,
      toLocaleDateString = testLocale,
      timeZone = utcZone,
      numberToString = (\<lambda>i. if i < 0 then ''-9007199254740992'' else ''9007199254740992''),
      nowISO = ''2026-01-22T10:00:00.000Z'',
      existsSync = (\<lambda>p. p = ''bookmarks.json''),
      readFileSync = (\<lambda>p. if p = ''bookmarks.json'' then Inr ''[]''
                          else Inl ''ENOENT: no such file or directory''),
      jsonParse = (\<lambda>s. if s = ''[]'' then Inr (Array []) else Inl ''Unexpected token''),
      jsonStringify = (\<lambda>xs. ''[]''),
      writeFileSync = (\<lambda>p c. None)\<rparr>"

section \<open>Properties\<close>

lemma replaceAll_append:
  "replaceAll c r (xs @ ys) = replaceAll c r xs @ replaceAll c r ys"
  by (induction xs) simp_all

lemma escape_two_passes:
  "replaceAll (CHR ''>'') ''&gt;'' (replaceAll (CHR ''<'') ''&lt;'' s) = escape_spec s"
  by (induction s) (simp_all add: escape_spec_def escapeChar_spec_def)

text \<open>
  C7. For every text the escaping replaces \<open><\<close> by \<open>&lt;\<close> and \<open>>\<close> by \<open>&gt;\<close>, character by
  character, and leaves every other character as it is (the second pass does not touch
  what the first one wrote); \<open>a<b>c\<close> becomes \<open>a&lt;b&gt;c\<close>.
\<close>

theorem escapeMarkdown_entities:
  "escapeMarkdown s = escape_spec s \<and> escapeMarkdown ''a<b>c'' = ''a&lt;b&gt;c''"
proof
  show "escapeMarkdown s = escape_spec s"
  proof (cases "s = []")
    case True
    then show ?thesis by (simp add: escapeMarkdown_def escape_spec_def)
  next
    case False
    then show ?thesis by (simp add: escapeMarkdown_def escape_two_passes)
  qed
  show "escapeMarkdown ''a<b>c'' = ''a&lt;b&gt;c''"
    by (simp add: escapeMarkdown_def)
qed

subsection \<open>The range filter\<close>

lemmas test_data_defs =
  testParse_def jan10_def jan20_def jan20late_def jan21_def year1900_def undated_def
  tweetAt_def noFields_def

lemma keepBookmark_invalid:
  "parseTwitterDate parse (createdAt b) = InvalidDate \<Longrightarrow> keepBookmark parse f t b"
  by (simp add: keepBookmark_def date_lt_def date_gt_def split: option.splits)

lemma keepBookmark_no_bounds: "keepBookmark parse None None b"
  by (simp add: keepBookmark_def)

text \<open>The two scripts' filters return the same elements; they differ in the early return.\<close>

lemma filterByDate_eq_tool:
  "filterByDate parse A f t = filterByDate_tool parse A f t"
  by (simp add: filterByDate_def filterByDate_tool_def keepBookmark_no_bounds)

lemma alloc_keeps:
  "a < nextRef st \<Longrightarrow> cells (fst (alloc st xs)) a = cells st a"
  by (simp add: alloc_def)

lemma alloc_holds: "cells (fst (alloc st xs)) (snd (alloc st xs)) = xs"
  by (simp add: alloc_def)

text \<open>
  C5. With both bounds unset the filter returns its input: the same elements in the same
  order in both scripts. The converter hands back the very array it was given (the same
  reference, in an unchanged store); the filter tool's result is a new array with the
  contents of the input.
\<close>

theorem filter_no_bounds_identity:
  "filterByDate parse A None None = A
   \<and> filterByDate_tool parse A None None = A
   \<and> filterByDate_ref parse st a None None = (st, a)
   \<and> cells (fst (filterByDate_tool_ref parse st a None None))
         (snd (filterByDate_tool_ref parse st a None None)) = cells st a"
  by (simp add: filterByDate_def filterByDate_tool_def filterByDate_ref_def
      filterByDate_tool_ref_def keepBookmark_no_bounds alloc_holds)

text \<open>
  C6. Filtering the output of a filter again with the same bounds gives that output, in
  both scripts. The array \<open>a\<close> that is filtered (any array of the store) has the same
  contents afterwards, and the array that is returned holds the filtered elements.
\<close>

theorem filter_idempotent_no_mutation:
  assumes "a < nextRef st"
  shows "filterByDate parse (filterByDate parse A f t) f t = filterByDate parse A f t
    \<and> filterByDate_tool parse (filterByDate_tool parse A f t) f t = filterByDate_tool parse A f t
    \<and> cells (fst (filterByDate_ref parse st a f t)) a = cells st a
    \<and> cells (fst (filterByDate_tool_ref parse st a f t)) a = cells st a
    \<and> cells (fst (filterByDate_ref parse st a f t)) (snd (filterByDate_ref parse st a f t))
        = filterByDate parse (cells st a) f t
    \<and> cells (fst (filterByDate_tool_ref parse st a f t)) (snd (filterByDate_tool_ref parse st a f t))
        = filterByDate_tool parse (cells st a) f t"
proof -
  have idem: "filterByDate_tool parse (filterByDate_tool parse A f t) f t = filterByDate_tool parse A f t"
    by (simp add: filterByDate_tool_def)
  have same: "cells (fst (filterByDate_ref parse st a f t)) a = cells st a"
    using assms by (simp add: filterByDate_ref_def alloc_keeps)
  have same_tool: "cells (fst (filterByDate_tool_ref parse st a f t)) a = cells st a"
    using assms by (simp add: filterByDate_tool_ref_def alloc_keeps)
  have res: "cells (fst (filterByDate_ref parse st a f t)) (snd (filterByDate_ref parse st a f t))
        = filterByDate parse (cells st a) f t"
    by (simp add: filterByDate_ref_def filterByDate_def alloc_holds)
  have res_tool: "cells (fst (filterByDate_tool_ref parse st a f t)) (snd (filterByDate_tool_ref parse st a f t))
        = filterByDate_tool parse (cells st a) f t"
    by (simp add: filterByDate_tool_ref_def filterByDate_tool_def alloc_holds)
  from idem same same_tool res res_tool show ?thesis
    by (simp add: filterByDate_eq_tool)
qed

text \<open>
  The store of the examples, filtered from 15 January 2026 on: the record of 10 January
  goes, the undated one and the one of 20 January stay, and array \<open>0\<close> is as before.
\<close>

theorem filter_idempotent_no_mutation_witness:
  "(0::nat) < nextRef testStore
   \<and> filterByDate testParse
        (filterByDate testParse [jan10, undated, jan20] (Some (Date 1768435200000)) None)
        (Some (Date 1768435200000)) None = [undated, jan20]
   \<and> filterByDate testParse [jan10, undated, jan20] (Some (Date 1768435200000)) None
        = [undated, jan20]
   \<and> cells (fst (filterByDate_ref testParse testStore 0 (Some (Date 1768435200000)) None)) 0
        = [jan10, undated, jan20]
   \<and> cells (fst (filterByDate_ref testParse testStore 0 (Some (Date 1768435200000)) None))
        (snd (filterByDate_ref testParse testStore 0 (Some (Date 1768435200000)) None))
        = [undated, jan20]"
proof -
  have a: "(0::nat) < nextRef testStore" by (simp add: testStore_def)
  have v: "filterByDate testParse [jan10, undated, jan20] (Some (Date 1768435200000)) None
        = [undated, jan20]"
    by (simp add: filterByDate_def keepBookmark_def parseTwitterDate_def date_lt_def test_data_defs)
  have c: "cells testStore 0 = [jan10, undated, jan20]" by (simp add: testStore_def)
  show ?thesis
    using a v c filter_idempotent_no_mutation [OF a, of testParse "[jan10, undated, jan20]"
           "Some (Date 1768435200000)" None]
    by simp
qed

text \<open>
  C1, as stated, fails: a record whose \<open>createdAt\<close> is no date is kept although the lower
  bound is set (every comparison with its invalid date is false, so neither \<open>return false\<close>
  is reached).
\<close>

theorem unparseable_kept_counterexample:
  "createdAt undated = Some ''not a date''
   \<and> parseTwitterDate testParse (createdAt undated) = InvalidDate
   \<and> filterByDate testParse [undated] (Some (Date 0)) None = [undated]
   \<and> filterByDate_tool testParse [undated] (Some (Date 0)) None = [undated]"
  by (simp add: filterByDate_def filterByDate_tool_def keepBookmark_def parseTwitterDate_def
      date_lt_def test_data_defs)

text \<open>
  C1, amended. A record whose \<open>createdAt\<close> does not parse as a date (or is absent) is in the
  output of the filter whatever the bounds are, set or unset, in both scripts.
\<close>

theorem unparseable_always_kept:
  assumes "parseTwitterDate parse (createdAt b) = InvalidDate" and "b \<in> set A"
  shows "b \<in> set (filterByDate parse A f t) \<and> b \<in> set (filterByDate_tool parse A f t)"
  using assms by (simp add: filterByDate_def filterByDate_tool_def keepBookmark_invalid)

text \<open>
  The undated record of the examples stays in the list, with a lower bound alone and with
  both bounds.
\<close>

theorem unparseable_always_kept_witness:
  "parseTwitterDate testParse (createdAt undated) = InvalidDate
   \<and> undated \<in> set [jan10, undated, jan20]
   \<and> undated \<in> set (filterByDate testParse [jan10, undated, jan20] (Some (Date 1768435200000)) None)
   \<and> undated \<in> set (filterByDate_tool testParse [jan10, undated, jan20]
        (Some (Date 1768435200000)) (Some (Date 1768953599999)))"
proof -
  have h1: "parseTwitterDate testParse (createdAt undated) = InvalidDate"
    by (simp add: parseTwitterDate_def test_data_defs)
  have h2: "undated \<in> set [jan10, undated, jan20]" by simp
  show ?thesis
    using h1 h2
      unparseable_always_kept [OF h1 h2, of "Some (Date 1768435200000)" None]
      unparseable_always_kept [OF h1 h2, of "Some (Date 1768435200000)" "Some (Date 1768953599999)"]
    by simp
qed

text \<open>
  C3, as stated, fails: with both bounds set and \<open>from \<le> to\<close>, the filter keeps the record
  whose \<open>createdAt\<close> is no date, and that record does not satisfy the bound predicate
  (\<open>timestamp >= from\<close> is false for an invalid date).
\<close>

theorem kept_out_of_bounds_counterexample:
  "date_le (Date 1768435200000) (Date 1768953599999)
   \<and> filterByDate testParse [jan10, undated, jan20]
        (Some (Date 1768435200000)) (Some (Date 1768953599999)) = [undated, jan20]
   \<and> \<not> inBounds_spec (Some (Date 1768435200000)) (Some (Date 1768953599999))
          (parseTwitterDate testParse (createdAt undated))"
  by (simp add: filterByDate_def keepBookmark_def parseTwitterDate_def inBounds_spec_def
      date_lt_def date_gt_def date_le_def date_ge_def test_data_defs)

lemma keepBookmark_in_bounds:
  assumes "keepBookmark parse f t b" and "parseTwitterDate parse (createdAt b) \<noteq> InvalidDate"
    and "f \<noteq> Some InvalidDate" and "t \<noteq> Some InvalidDate"
  shows "inBounds_spec f t (parseTwitterDate parse (createdAt b))"
proof -
  obtain ts where ts: "parseTwitterDate parse (createdAt b) = Date ts"
    using assms(2) by (cases "parseTwitterDate parse (createdAt b)") simp_all
  have lower: "case f of None \<Rightarrow> True | Some d \<Rightarrow> date_ge (Date ts) d"
  proof (cases f)
    case None
    then show ?thesis by simp
  next
    case (Some d)
    with assms(3) obtain x where "d = Date x" by (cases d) simp_all
    with Some assms(1) ts show ?thesis
      by (simp add: keepBookmark_def date_lt_def date_ge_def split: if_splits)
  qed
  have upper: "case t of None \<Rightarrow> True | Some d \<Rightarrow> date_le (Date ts) d"
  proof (cases t)
    case None
    then show ?thesis by simp
  next
    case (Some d)
    with assms(4) obtain x where "d = Date x" by (cases d) simp_all
    with Some assms(1) ts show ?thesis
      by (simp add: keepBookmark_def date_gt_def date_le_def split: if_splits)
  qed
  from lower upper ts show ?thesis by (simp add: inBounds_spec_def)
qed

text \<open>
  C3, amended. For bounds that are unset or valid dates (whether or not \<open>from \<le> to\<close>), the
  output of the filter is a subsequence of its input in the original order, and every
  kept element whose timestamp parses satisfies the inclusive bound predicate. An
  element whose timestamp does not parse is kept, and satisfies no bound.
\<close>

theorem filter_subseq_in_bounds:
  assumes "f \<noteq> Some InvalidDate" and "t \<noteq> Some InvalidDate"
  shows "subseq (filterByDate parse A f t) A
    \<and> subseq (filterByDate_tool parse A f t) A
    \<and> (\<forall>b \<in> set (filterByDate parse A f t).
          parseTwitterDate parse (createdAt b) \<noteq> InvalidDate
          \<longrightarrow> inBounds_spec f t (parseTwitterDate parse (createdAt b)))
    \<and> (\<forall>b \<in> set (filterByDate_tool parse A f t).
          parseTwitterDate parse (createdAt b) \<noteq> InvalidDate
          \<longrightarrow> inBounds_spec f t (parseTwitterDate parse (createdAt b)))
    \<and> (\<forall>b \<in> set A.
          parseTwitterDate parse (createdAt b) = InvalidDate
          \<longrightarrow> b \<in> set (filterByDate parse A f t) \<and> b \<in> set (filterByDate_tool parse A f t))"
proof -
  have sub: "subseq (filterByDate_tool parse A f t) A"
    by (simp add: filterByDate_tool_def)
  have inb: "\<forall>b \<in> set (filterByDate_tool parse A f t).
          parseTwitterDate parse (createdAt b) \<noteq> InvalidDate
          \<longrightarrow> inBounds_spec f t (parseTwitterDate parse (createdAt b))"
    using assms by (auto simp: filterByDate_tool_def intro: keepBookmark_in_bounds)
  have inv: "\<forall>b \<in> set A.
          parseTwitterDate parse (createdAt b) = InvalidDate
          \<longrightarrow> b \<in> set (filterByDate_tool parse A f t)"
    by (simp add: filterByDate_tool_def keepBookmark_invalid)
  from sub inb inv show ?thesis by (simp add: filterByDate_eq_tool)
qed

text \<open>
  From 15 January to the end of 20 January 2026: of the four records the undated one and
  the one of 20 January stay, in their order, and the latter lies within the bounds.
\<close>

theorem filter_subseq_in_bounds_witness:
  "Some (Date 1768435200000) \<noteq> Some InvalidDate
   \<and> Some (Date 1768953599999) \<noteq> Some InvalidDate
   \<and> filterByDate testParse [jan10, undated, jan20, jan21]
        (Some (Date 1768435200000)) (Some (Date 1768953599999)) = [undated, jan20]
   \<and> subseq [undated, jan20] [jan10, undated, jan20, jan21]
   \<and> parseTwitterDate testParse (createdAt jan20) = Date 1768924876000
   \<and> inBounds_spec (Some (Date 1768435200000)) (Some (Date 1768953599999)) (Date 1768924876000)"
proof -
  have h1: "Some (Date 1768435200000) \<noteq> Some InvalidDate" by simp
  have h2: "Some (Date 1768953599999) \<noteq> Some InvalidDate" by simp
  have v: "filterByDate testParse [jan10, undated, jan20, jan21]
        (Some (Date 1768435200000)) (Some (Date 1768953599999)) = [undated, jan20]"
    by (simp add: filterByDate_def keepBookmark_def parseTwitterDate_def date_lt_def date_gt_def
        test_data_defs)
  have p: "parseTwitterDate testParse (createdAt jan20) = Date 1768924876000"
    by (simp add: parseTwitterDate_def test_data_defs)
  show ?thesis
    using h1 h2 v p filter_subseq_in_bounds [OF h1 h2, of testParse "[jan10, undated, jan20, jan21]"]
    by simp
qed

subsection \<open>The command line\<close>

lemma parseArgs_loop_split:
  "atScan pre \<Longrightarrow>
     parseArgs_loop tz (pre @ rest) r = parseArgs_loop tz rest (parseArgs_loop tz pre r)"
proof (induction pre arbitrary: r rule: atScan.induct)
  case 1
  then show ?case by simp
next
  case (2 a)
  then show ?case by (cases rest) (auto simp: isFlag_def)
next
  case (3 a b rest')
  show ?case
  proof (cases "isFlag a \<and> b \<noteq> []")
    case True
    with 3 show ?thesis by (auto simp: isFlag_def)
  next
    case False
    with 3 show ?thesis by (auto simp: isFlag_def)
  qed
qed

lemma parseArgs_loop_skip:
  "\<not> recognised r t post \<Longrightarrow> parseArgs_loop tz (t # post) r = parseArgs_loop tz post r"
  by (cases post) (auto simp: recognised_def isFlag_def)

text \<open>
  C9. When the loop reads a token as \<open>arg\<close> and the token is neither a flag with a value
  after it nor taken as the input path, the pass leaves the options as they are and the
  loop goes on with the next token. Such a token, when it does not follow a flag that
  would take it as its value, can be left out of the argument list: the parsed options
  are the same. This covers an unknown flag, a known flag with nothing after it, and a
  further path once the input is set. \<open>parseArgs\<close> has no error result.
\<close>

theorem unrecognised_token_no_effect:
  "(\<not> recognised r t post \<longrightarrow> parseArgs_loop tz (t # post) r = parseArgs_loop tz post r)
   \<and> (atScan pre
        \<and> \<not> recognised (parseArgs_loop tz pre
               \<lparr>input_opt = None, output_opt = None, from_opt = None, to_opt = None\<rparr>) t post
        \<longrightarrow> parseArgs tz (pre @ t # post) = parseArgs tz (pre @ post))"
  by (simp add: parseArgs_def parseArgs_loop_split parseArgs_loop_skip)

text \<open>
  An unknown flag between a date and the output flag, and a second path after the input,
  change nothing.
\<close>

theorem unrecognised_token_no_effect_witness:
  "atScan [''bookmarks.json'', ''--from'', ''2026-01-15'']
   \<and> \<not> recognised (parseArgs_loop utcZone [''bookmarks.json'', ''--from'', ''2026-01-15'']
           \<lparr>input_opt = None, output_opt = None, from_opt = None, to_opt = None\<rparr>)
         ''--verbose'' [''-o'', ''out.md'']
   \<and> parseArgs utcZone [''bookmarks.json'', ''--from'', ''2026-01-15'', ''--verbose'', ''-o'', ''out.md'']
       = parseArgs utcZone [''bookmarks.json'', ''--from'', ''2026-01-15'', ''-o'', ''out.md'']
   \<and> atScan [''bookmarks.json'']
   \<and> \<not> recognised (parseArgs_loop utcZone [''bookmarks.json'']
           \<lparr>input_opt = None, output_opt = None, from_opt = None, to_opt = None\<rparr>)
         ''other.json'' [''--to'']
   \<and> parseArgs utcZone [''bookmarks.json'', ''other.json'', ''--to'']
       = \<lparr>input_opt = Some ''bookmarks.json'', output_opt = None, from_opt = None, to_opt = None\<rparr>
   \<and> \<not> recognised \<lparr>input_opt = Some ''bookmarks.json'', output_opt = None, from_opt = None,
           to_opt = None\<rparr> ''--to'' []
   \<and> parseArgs_loop utcZone [''--to'']
         \<lparr>input_opt = Some ''bookmarks.json'', output_opt = None, from_opt = None, to_opt = None\<rparr>
       = \<lparr>input_opt = Some ''bookmarks.json'', output_opt = None, from_opt = None, to_opt = None\<rparr>"
proof -
  have a1: "atScan [''bookmarks.json'', ''--from'', ''2026-01-15'']"
    by (simp add: isFlag_def)
  have r1: "\<not> recognised (parseArgs_loop utcZone [''bookmarks.json'', ''--from'', ''2026-01-15'']
           \<lparr>input_opt = None, output_opt = None, from_opt = None, to_opt = None\<rparr>)
         ''--verbose'' [''-o'', ''out.md'']"
    by (simp add: recognised_def isFlag_def startsWithDash_def)
  have a2: "atScan [''bookmarks.json'']"
    by (simp add: isFlag_def)
  have r2: "\<not> recognised (parseArgs_loop utcZone [''bookmarks.json'']
           \<lparr>input_opt = None, output_opt = None, from_opt = None, to_opt = None\<rparr>)
         ''other.json'' [''--to'']"
    by (simp add: recognised_def isFlag_def startsWithDash_def noInput_def)
  have r3: "\<not> recognised \<lparr>input_opt = Some ''bookmarks.json'', output_opt = None,
           from_opt = None, to_opt = None\<rparr> ''--to'' []"
    by (simp add: recognised_def isFlag_def startsWithDash_def noInput_def)
  have v: "parseArgs utcZone [''bookmarks.json'', ''--to'']
       = \<lparr>input_opt = Some ''bookmarks.json'', output_opt = None, from_opt = None, to_opt = None\<rparr>"
    by (simp add: parseArgs_def startsWithDash_def noInput_def)
  have e1: "parseArgs utcZone ([''bookmarks.json'', ''--from'', ''2026-01-15''] @ ''--verbose'' # [''-o'', ''out.md''])
       = parseArgs utcZone ([''bookmarks.json'', ''--from'', ''2026-01-15''] @ [''-o'', ''out.md''])"
    using a1 r1
      unrecognised_token_no_effect [where pre = "[''bookmarks.json'', ''--from'', ''2026-01-15'']"
        and t = "''--verbose''" and post = "[''-o'', ''out.md'']" and tz = utcZone]
    by blast
  have e2: "parseArgs utcZone ([''bookmarks.json''] @ ''other.json'' # [''--to''])
       = parseArgs utcZone ([''bookmarks.json''] @ [''--to''])"
    using a2 r2
      unrecognised_token_no_effect [where pre = "[''bookmarks.json'']"
        and t = "''other.json''" and post = "[''--to'']" and tz = utcZone]
    by blast
  have e3: "parseArgs_loop utcZone (''--to'' # [])
         \<lparr>input_opt = Some ''bookmarks.json'', output_opt = None, from_opt = None, to_opt = None\<rparr>
       = parseArgs_loop utcZone []
         \<lparr>input_opt = Some ''bookmarks.json'', output_opt = None, from_opt = None, to_opt = None\<rparr>"
    using r3
      unrecognised_token_no_effect [where r = "\<lparr>input_opt = Some ''bookmarks.json'',
          output_opt = None, from_opt = None, to_opt = None\<rparr>"
        and t = "''--to''" and post = "[]" and tz = utcZone]
    by blast
  show ?thesis
    using a1 r1 a2 r2 r3 v e1 e2 e3 by simp
qed

subsection \<open>The filter tool's first tests\<close>

lemma main_tool_input_required:
  "main_tool rt args = ([Stderr ''Error: Input file required''], 1)
   \<longleftrightarrow> (args \<noteq> [] \<and> ''--help'' \<notin> set args \<and> ''-h'' \<notin> set args
        \<and> noInput (parseArgs (timeZone rt) args))"
  by (auto simp: main_tool_def Let_def caught_def notAnArray_def
      split: sum.splits json.splits option.splits)

text \<open>
  C10, as stated, fails in its second half: when the one argument is the empty string,
  that token is taken as the input path, and the run still ends with
  \<open>Input file required\<close>, because \<open>!options.input\<close> holds for the empty string too.
\<close>

theorem input_required_counterexample:
  "main_tool testRuntime [''''] = ([Stderr ''Error: Input file required''], 1)
   \<and> input_opt (parseArgs (timeZone testRuntime) ['''']) = Some ''''"
  by (simp add: main_tool_def parseArgs_def noInput_def startsWithDash_def)

text \<open>
  C10, amended. With no argument the filter tool prints its help and exits with status 0.
  The run that prints \<open>Error: Input file required\<close> and exits with status 1 happens exactly
  when there is an argument, none is \<open>-h\<close> or \<open>--help\<close>, and the input path is still unset
  or is the empty string.
\<close>

theorem help_and_input_required:
  "main_tool rt [] = ([Stdout helpFilter], 0)
   \<and> (main_tool rt args = ([Stderr ''Error: Input file required''], 1)
        \<longleftrightarrow> (args \<noteq> [] \<and> ''--help'' \<notin> set args \<and> ''-h'' \<notin> set args
             \<and> (input_opt (parseArgs (timeZone rt) args) = None
                  \<or> input_opt (parseArgs (timeZone rt) args) = Some [])))"
proof -
  have "main_tool rt [] = ([Stdout helpFilter], 0)"
    by (simp add: main_tool_def)
  moreover have "noInput (parseArgs (timeZone rt) args)
     \<longleftrightarrow> (input_opt (parseArgs (timeZone rt) args) = None
          \<or> input_opt (parseArgs (timeZone rt) args) = Some [])"
    by (simp add: noInput_def split: option.splits)
  ultimately show ?thesis
    using main_tool_input_required [of rt args] by simp
qed

text \<open>A run with a lower bound and no input path.\<close>

theorem help_and_input_required_witness:
  "main_tool testRuntime [] = ([Stdout helpFilter], 0)
   \<and> main_tool testRuntime [''--from'', ''2026-01-15''] = ([Stderr ''Error: Input file required''], 1)
   \<and> input_opt (parseArgs (timeZone testRuntime) [''--from'', ''2026-01-15'']) = None"
proof -
  have i: "input_opt (parseArgs (timeZone testRuntime) [''--from'', ''2026-01-15'']) = None"
    by (simp add: parseArgs_def)
  show ?thesis
    using i help_and_input_required [of testRuntime "[''--from'', ''2026-01-15'']"]
    by simp
qed

subsection \<open>Numbers\<close>







lemma stripLeft_step:
  assumes "List.find (\<lambda>p. p \<noteq> [] \<and> prefix p s) seqs = Some p"
  shows "stripLeft seqs s = stripLeft seqs (drop (length p) s)"
  using assms by (subst stripLeft.simps) simp



subsection \<open>Dates on the command line\<close>














lemma toInteger_of_int: "toInteger (of_int i) = i"
  by (simp add: toInteger_def)





lemma keepBookmark_invalid_bounds:
  assumes "f = None \<or> f = Some InvalidDate" and "t = None \<or> t = Some InvalidDate"
  shows "keepBookmark parse f t b"
  using assms
  by (auto simp: keepBookmark_def date_lt_def date_gt_def split: jsdate.splits)
















subsection \<open>The renderer\<close>

text \<open>
  C8. A record without \<open>author\<close> is rendered with the name \<open>Unknown\<close> and the username
  \<open>unknown\<close> (in the heading and in the link), one without \<open>likeCount\<close> with the count \<open>0\<close>,
  one without \<open>text\<close> with an empty body line; a record without any of these and without
  the two other counts gives the lines below. The renderer is a total function into
  texts: it has no error result, since \<open>?.\<close>, \<open>||\<close> and \<open>??\<close> replace an absent value
  before it is used.
\<close>

theorem missing_fields_defaults:
  "(author tw = None \<longrightarrow>
      tweetLines rt tw ! 0 = ''## Unknown (@unknown)''
      \<and> tweetLines rt tw ! 6
          = ''- [View tweet](https://x.com/unknown/status/'' @ showId rt (id_field tw) @ '')'')
   \<and> (likeCount tw = None \<longrightarrow>
      tweetLines rt tw ! 5
        = ''- Likes: 0 | Retweets: '' @ showInt rt (orZero (retweetCount tw))
            @ '' | Replies: '' @ showInt rt (orZero (replyCount tw)))
   \<and> (text_field tw = None \<longrightarrow> tweetLines rt tw ! 3 = [])
   \<and> (author tw = None \<and> likeCount tw = None \<and> retweetCount tw = None
        \<and> replyCount tw = None \<and> text_field tw = None \<longrightarrow>
      tweetLines rt tw
        = [''## Unknown (@unknown)'',
           ''**Date:** '' @ formatDate rt (createdAt tw),
           [],
           [],
           [],
           ''- Likes: 0 | Retweets: 0 | Replies: 0'',
           ''- [View tweet](https://x.com/unknown/status/'' @ showId rt (id_field tw) @ '')'']
          @ quotedLines (quotedTweet tw) @ [[], ''---'', []])"
proof -
  have z: "showInt rt 0 = ''0''"
    by (simp add: showInt_def showNat.simps)
  show ?thesis
    by (simp add: tweetLines_def Let_def nameOf_def usernameOf_def orElse_def orZero_def
        escapeMarkdown_def z)
qed

text \<open>The record without any field, and the document for the list that holds just it.\<close>

theorem missing_fields_defaults_witness:
  "author noFields = None \<and> likeCount noFields = None \<and> retweetCount noFields = None
   \<and> replyCount noFields = None \<and> text_field noFields = None
   \<and> tweetLines testRuntime noFields
       = [''## Unknown (@unknown)'',
          ''**Date:** Unknown date'',
          [],
          [],
          [],
          ''- Likes: 0 | Retweets: 0 | Replies: 0'',
          ''- [View tweet](https://x.com/unknown/status/undefined)'',
          [],
          ''---'',
          []]
   \<and> convertToMarkdown testRuntime [noFields]
       = join newline
          [''# X Bookmarks'',
           [],
           ''Exported on: 2026-01-22'',
           ''Total bookmarks: 1'',
           [],
           ''---'',
           [],
           ''## Unknown (@unknown)'',
           ''**Date:** Unknown date'',
           [],
           [],
           [],
           ''- Likes: 0 | Retweets: 0 | Replies: 0'',
           ''- [View tweet](https://x.com/unknown/status/undefined)'',
           [],
           ''---'',
           []]"
proof -
  have f: "author noFields = None" "likeCount noFields = None" "retweetCount noFields = None"
    "replyCount noFields = None" "text_field noFields = None" "createdAt noFields = None"
    "id_field noFields = None" "quotedTweet noFields = None"
    by (simp_all add: noFields_def)
  have l: "tweetLines testRuntime noFields
       = [''## Unknown (@unknown)'',
          ''**Date:** Unknown date'',
          [],
          [],
          [],
          ''- Likes: 0 | Retweets: 0 | Replies: 0'',
          ''- [View tweet](https://x.com/unknown/status/undefined)'',
          [],
          ''---'',
          []]"
    using f missing_fields_defaults [of noFields testRuntime]
    by (simp add: formatDate_def showId_def quotedLines_def)
  have t: "today testRuntime = ''2026-01-22''"
    by (simp add: today_def testRuntime_def split_def)
  have n: "showNat (Suc 0) = ''1''"
    by (subst showNat.simps) simp
  have d: "convertToMarkdown testRuntime [noFields]
       = join newline
          ([''# X Bookmarks'', [], ''Exported on: 2026-01-22'', ''Total bookmarks: 1'',
            [], ''---'', []] @ tweetLines testRuntime noFields)"
    by (simp add: convertToMarkdown_def t n)
  show ?thesis
    using f l d by simp
qed

subsection \<open>The upper bound\<close>






lemma Day_of_midnight: "Day (d * msPerDay) = d"
  by (simp add: Day_def msPerDay_def)

lemma div_day_le:
  "((a::int) div 86400000 \<le> d) = (a \<le> d * 86400000 + 86399999)"
  by arith









text \<open>
  \<open>civilDay\<close> numbers the days of the calendar one after the other, from 1 January 1970:
  the next day of a month, the first of the next month after the last of a month, and
  1 January after 31 December.
\<close>

lemma div_succ:
  fixes a k :: int
  assumes "0 < k"
  shows "(a + 1) div k = a div k + (if (a + 1) mod k = 0 then 1 else 0)"
proof -
  define q where "q = a div k"
  define r where "r = a mod k"
  have a: "a = k * q + r" and r: "0 \<le> r" "r < k"
    using assms by (simp_all add: q_def r_def)
  show ?thesis
  proof (cases "r + 1 = k")
    case True
    then have e: "a + 1 = k * (q + 1) + 0"
      using a by (simp add: algebra_simps)
    have "(a + 1) div k = q + 1"
      using e assms by (intro int_div_pos_eq [where r = 0]) simp_all
    moreover have "(a + 1) mod k = 0"
      using e assms by (intro int_mod_pos_eq [where q = "q + 1"]) simp_all
    ultimately show ?thesis by (simp add: q_def)
  next
    case False
    with r have lt: "r + 1 < k" by simp
    have e: "a + 1 = k * q + (r + 1)"
      using a by simp
    have "(a + 1) div k = q"
      using e r lt by (intro int_div_pos_eq [where r = "r + 1"]) simp_all
    moreover have "(a + 1) mod k = r + 1"
      using e r lt by (intro int_mod_pos_eq [where q = q]) simp_all
    ultimately show ?thesis using r by (simp add: q_def)
  qed
qed

lemma mod_shift:
  fixes y c k :: int
  assumes "c mod k = 0"
  shows "(y - c) mod k = y mod k"
proof -
  have "(y - c) mod k = (y - c mod k) mod k" by (simp only: mod_diff_right_eq)
  with assms show ?thesis by simp
qed

lemma DayFromYear_next:
  "DayFromYear (y + 1) = DayFromYear y + 365 + (if isLeapYear y then 1 else 0)"
proof -
  have p: "(y - 1968) div 4 = (y - 1969) div 4 + (if y mod 4 = 0 then 1 else 0)"
    using div_succ [of 4 "y - 1969"] mod_shift [of 1968 4 y] by simp
  have q: "(y - 1900) div 100 = (y - 1901) div 100 + (if y mod 100 = 0 then 1 else 0)"
    using div_succ [of 100 "y - 1901"] mod_shift [of 1900 100 y] by simp
  have r: "(y - 1600) div 400 = (y - 1601) div 400 + (if y mod 400 = 0 then 1 else 0)"
    using div_succ [of 400 "y - 1601"] mod_shift [of 1600 400 y] by simp
  have d: "(100::int) dvd 400" "(4::int) dvd 100" by simp_all
  have m1: "y mod 100 = 0" if "y mod 400 = 0"
  proof -
    from that have "400 dvd y" by (simp only: mod_eq_0_iff_dvd)
    with d(1) have "100 dvd y" by (rule dvd_trans)
    then show ?thesis by (simp only: mod_eq_0_iff_dvd)
  qed
  have m2: "y mod 4 = 0" if "y mod 100 = 0"
  proof -
    from that have "100 dvd y" by (simp only: mod_eq_0_iff_dvd)
    with d(2) have "4 dvd y" by (rule dvd_trans)
    then show ?thesis by (simp only: mod_eq_0_iff_dvd)
  qed
  define A where "A \<longleftrightarrow> y mod 4 = 0"
  define B where "B \<longleftrightarrow> y mod 100 = 0"
  define C where "C \<longleftrightarrow> y mod 400 = 0"
  define P where "P = (y - 1969) div 4"
  define Q where "Q = (y - 1901) div 100"
  define R where "R = (y - 1601) div 400"
  have imp: "C \<Longrightarrow> B" "B \<Longrightarrow> A"
    using m1 m2 by (simp_all only: A_def B_def C_def)
  have leap: "isLeapYear y \<longleftrightarrow> A \<and> (\<not> B \<or> C)"
    by (simp only: isLeapYear_def A_def B_def C_def)
  have ind: "(if A then 1 else 0) - (if B then 1 else 0) + (if C then 1 else 0)
      = (if A \<and> (\<not> B \<or> C) then (1::int) else 0)"
    using imp by (cases A; cases B; cases C) simp_all
  have "DayFromYear (y + 1) = 365 * (y - 1969) + (y - 1968) div 4 - (y - 1900) div 100
      + (y - 1600) div 400"
    by (simp add: DayFromYear_def)
  also have "\<dots> = 365 * (y - 1969) + (P + (if A then 1 else 0)) - (Q + (if B then 1 else 0))
      + (R + (if C then 1 else 0))"
    by (simp only: p q r A_def B_def C_def P_def Q_def R_def)
  also have "\<dots> = (365 * (y - 1970) + P - Q + R) + 365
      + ((if A then 1 else 0) - (if B then 1 else 0) + (if C then 1 else 0))"
    by (simp add: algebra_simps)
  also have "\<dots> = DayFromYear y + 365 + (if isLeapYear y then 1 else 0)"
    by (simp only: ind leap DayFromYear_def P_def Q_def R_def)
  finally show ?thesis .
qed

lemma daysBeforeMonth_next:
  assumes "1 \<le> m" and "m < 12"
  shows "daysBeforeMonth y m = daysBeforeMonth y (m - 1) + daysInMonth y m"
proof -
  from assms have "m = 1 \<or> m = 2 \<or> m = 3 \<or> m = 4 \<or> m = 5 \<or> m = 6 \<or> m = 7 \<or> m = 8
      \<or> m = 9 \<or> m = 10 \<or> m = 11"
    by arith
  then show ?thesis
    by (elim disjE) (simp_all add: daysBeforeMonth_def daysInMonth_def)
qed

lemma civilDay_calendar:
  shows "civilDay 1970 1 1 = 0"
    and "civilDay y m (d + 1) = civilDay y m d + 1"
    and "1 \<le> m \<Longrightarrow> m < 12 \<Longrightarrow> civilDay y (m + 1) 1 = civilDay y m (daysInMonth y m) + 1"
    and "civilDay (y + 1) 1 1 = civilDay y 12 31 + 1"
proof -
  show "civilDay 1970 1 1 = 0"
    by (simp add: civilDay_def DayFromYear_def daysBeforeMonth_def)
  show "civilDay y m (d + 1) = civilDay y m d + 1"
    by (simp add: civilDay_def)
  show "civilDay y (m + 1) 1 = civilDay y m (daysInMonth y m) + 1" if "1 \<le> m" and "m < 12"
    using daysBeforeMonth_next [OF that, of y] by (simp add: civilDay_def)
  have "daysBeforeMonth y 11 = 334 + (if isLeapYear y then 1 else 0)"
    by (simp add: daysBeforeMonth_def)
  moreover have "daysBeforeMonth (y + 1) 0 = 0"
    by (simp add: daysBeforeMonth_def)
  ultimately show "civilDay (y + 1) 1 1 = civilDay y 12 31 + 1"
    by (simp add: civilDay_def DayFromYear_next)
qed




end
